theory Spec2Isabelle
  imports Main "HOL-Library.Sublist"
begin

section \<open>Data model of \<^verbatim>\<open>src/main.ts\<close>\<close>

text \<open>
  JavaScript strings are modelled as \<^typ>\<open>string\<close>. The plugin only concatenates
  strings, searches for a substring, replaces a first occurrence and joins; none of
  these depends on how a character is encoded, so the Chinese literals of the source
  are written as their UTF-8 bytes.
\<close>

text \<open>The interface \<^verbatim>\<open>MyPluginSettings\<close> (lines 6-12).\<close>

record MyPluginSettings =
  repo :: string
  branch :: string
  path :: string
  token :: string
  subPathable :: bool

text \<open>The constant \<^verbatim>\<open>DEFAULT_SETTINGS\<close> (lines 14-20).\<close>

definition DEFAULT_SETTINGS :: MyPluginSettings where
  "DEFAULT_SETTINGS =
     \<lparr>repo = '''', branch = ''master'', path = ''/'', token = '''', subPathable = True\<rparr>"

text \<open>
  A browser \<^verbatim>\<open>File\<close>, with the three properties the plugin reads:
  \<^verbatim>\<open>file.name\<close>, \<^verbatim>\<open>file.size\<close> (a byte count) and \<^verbatim>\<open>file.type\<close> (the MIME type).
\<close>

record File =
  name :: string
  size_bytes :: nat
  type :: string

text \<open>\<^verbatim>\<open>new Notice(text, duration)\<close>: a transient message and its display time in ms.\<close>

datatype notice = Notice (notice_text: string) (notice_duration: nat)

text \<open>
  The call \<^verbatim>\<open>axios.post(url, {access_token, content, message})\<close> of lines 81-85.
\<close>

record request =
  url :: string
  access_token :: string
  content :: string
  message :: string

text \<open>
  What the collaborators answer. \<^verbatim>\<open>FileReader.readAsDataURL\<close> ends in \<^verbatim>\<open>onload\<close> with
  \<^verbatim>\<open>reader.result\<close> a data URL, or in \<^verbatim>\<open>onerror\<close>. The promise of \<^verbatim>\<open>axios.post\<close> is
  fulfilled with a response whose body carries \<^verbatim>\<open>content.download_url\<close>, or rejected
  with an error object; \<^verbatim>\<open>err.response\<close> is there when the server answered with a
  non-success status (its body carries \<^verbatim>\<open>message\<close>) and is \<^verbatim>\<open>undefined\<close> when no
  response was received at all. So \<open>AxiosResponse u\<close> is a response with
  \<^verbatim>\<open>res.data.content.download_url\<close> equal to \<open>u\<close>, \<open>AxiosError (Some m)\<close> an error
  with \<^verbatim>\<open>err.response.data.message\<close> equal to \<open>m\<close>, and \<open>AxiosError None\<close> an error
  without \<^verbatim>\<open>response\<close>.
\<close>

datatype read_outcome = ReadLoaded string | ReadError

datatype axios_response = AxiosResponse (download_url: string)

datatype axios_error = AxiosError (response: "string option")

datatype post_outcome = PostFulfilled axios_response | PostRejected axios_error

text \<open>Reading a property of \<^verbatim>\<open>undefined\<close> throws.\<close>

datatype js_error = TypeError

text \<open>
  The states of a JavaScript promise. \<open>Pending\<close> as a final value stands for a
  promise that nobody ever resolves or rejects.
\<close>

datatype 'a promise = Fulfilled 'a | Rejected | Pending

section \<open>String operations\<close>

text \<open>\<^verbatim>\<open>s.includes(sub)\<close>: \<open>sub\<close> occurs in \<open>s\<close> as a contiguous substring.\<close>

fun js_includes :: "string \<Rightarrow> string \<Rightarrow> bool" where
  "js_includes [] sub = (sub = [])"
| "js_includes (c # cs) sub = (prefix sub (c # cs) \<or> js_includes cs sub)"

text \<open>
  \<^verbatim>\<open>s.replace(pat, rep)\<close> with a string pattern: the first occurrence of \<open>pat\<close> is
  replaced, and \<open>s\<close> is returned as it is when there is none. (The source only ever
  passes the replacement \<^verbatim>\<open>''\<close>, so the \<^verbatim>\<open>$\<close> patterns of a replacement string do
  not arise.)
\<close>

fun replace :: "string \<Rightarrow> string \<Rightarrow> string \<Rightarrow> string" where
  "replace [] pat rep = (if pat = [] then rep else [])"
| "replace (c # cs) pat rep =
     (if prefix pat (c # cs) then rep @ drop (length pat) (c # cs)
      else c # replace cs pat rep)"

text \<open>\<^verbatim>\<open>xs.join(sep)\<close> on an array of strings.\<close>

fun join :: "string list \<Rightarrow> string \<Rightarrow> string" where
  "join [] sep = []"
| "join [x] sep = x"
| "join (x # y # ys) sep = x @ sep @ join (y # ys) sep"

section \<open>The fixed texts of the notices\<close>

text \<open>
  Line 75: "file size must not exceed 10MB, ", the names joined by an ideographic
  comma (U+3001), " will be discarded".
\<close>

definition too_large_head :: string where
  "too_large_head =
     [CHR 0xE6, CHR 0x96, CHR 0x87, CHR 0xE4, CHR 0xBB, CHR 0xB6, CHR 0xE5, CHR 0xA4,
      CHR 0xA7, CHR 0xE5, CHR 0xB0, CHR 0x8F, CHR 0xE4, CHR 0xB8, CHR 0x8D, CHR 0xE8,
      CHR 0x83, CHR 0xBD, CHR 0xE8, CHR 0xB6, CHR 0x85, CHR 0xE8, CHR 0xBF, CHR 0x87]
     @ ''10MB'' @ [CHR 0xEF, CHR 0xBC, CHR 0x8C]"

definition name_separator :: string where
  "name_separator = [CHR 0xE3, CHR 0x80, CHR 0x81]"

definition too_large_tail :: string where
  "too_large_tail =
     [CHR 0xE5, CHR 0xB0, CHR 0x86, CHR 0xE4, CHR 0xBC, CHR 0x9A, CHR 0xE8, CHR 0xA2,
      CHR 0xAB, CHR 0xE4, CHR 0xB8, CHR 0xA2, CHR 0xE5, CHR 0xBC, CHR 0x83]"

text \<open>Line 90: "uploading file " name " failed, reason: " message.\<close>

definition upload_failed_head :: string where
  "upload_failed_head =
     [CHR 0xE4, CHR 0xB8, CHR 0x8A, CHR 0xE4, CHR 0xBC, CHR 0xA0, CHR 0xE6, CHR 0x96,
      CHR 0x87, CHR 0xE4, CHR 0xBB, CHR 0xB6]"

definition upload_failed_mid :: string where
  "upload_failed_mid =
     [CHR 0xE5, CHR 0xA4, CHR 0xB1, CHR 0xE8, CHR 0xB4, CHR 0xA5, CHR 0xEF, CHR 0xBC,
      CHR 0x8C, CHR 0xE5, CHR 0xA4, CHR 0xB1, CHR 0xE8, CHR 0xB4, CHR 0xA5, CHR 0xE5,
      CHR 0x8E, CHR 0x9F, CHR 0xE5, CHR 0x9B, CHR 0xA0, CHR 0xEF, CHR 0xBC, CHR 0x9A]"

text \<open>Line 95: "reading file " name " failed".\<close>

definition read_failed_head :: string where
  "read_failed_head =
     [CHR 0xE6, CHR 0x96, CHR 0x87, CHR 0xE4, CHR 0xBB, CHR 0xB6, CHR 0xE8, CHR 0xAF,
      CHR 0xBB, CHR 0xE5, CHR 0x8F, CHR 0x96]"

definition read_failed_tail :: string where
  "read_failed_tail = [CHR 0xE5, CHR 0xA4, CHR 0xB1, CHR 0xE8, CHR 0xB4, CHR 0xA5]"

section \<open>One file: read, post, map the answer (lines 78-99)\<close>

text \<open>What one element of the array given to \<^verbatim>\<open>Promise.all\<close> did and how it ended.\<close>

record op_result =
  requests :: "request list"
  notices :: "notice list"
  settled :: "string promise"

text \<open>The request of lines 81-85, built from \<^verbatim>\<open>reader.result\<close>.\<close>

definition make_request :: "MyPluginSettings \<Rightarrow> string \<Rightarrow> File \<Rightarrow> string \<Rightarrow> request" where
  "make_request settings filePath file result =
     \<lparr>url = ''https://gitee.com/api/v5/repos/'' @ repo settings @ ''/contents/''
              @ path settings @ ''/'' @ filePath @ ''/'' @ name file,
      access_token = token settings,
      content = replace result (''data:'' @ type file @ '';base64,'') '''',
      message = ''upload image''\<rparr>"

text \<open>The callback of \<^verbatim>\<open>.then\<close> (lines 86-88): the value given to \<^verbatim>\<open>resolve\<close>.\<close>

definition then_handler :: "File \<Rightarrow> axios_response \<Rightarrow> string" where
  "then_handler file res =
     (if js_includes (type file) ''image''
      then ''!['' @ name file @ '']('' @ download_url res @ '')''
      else download_url res)"

text \<open>
  The callback of \<^verbatim>\<open>.catch\<close> (lines 89-92). It first evaluates
  \<^verbatim>\<open>err.response.data.message\<close> for the text of the notice, which throws when
  \<^verbatim>\<open>err.response\<close> is \<^verbatim>\<open>undefined\<close>; then neither the notice is made nor
  \<^verbatim>\<open>resolve('')\<close> reached.
\<close>

definition catch_handler :: "File \<Rightarrow> axios_error \<Rightarrow> js_error + (notice \<times> string)" where
  "catch_handler file err =
     (case response err of
        None \<Rightarrow> Inl TypeError
      | Some msg \<Rightarrow>
          Inr (Notice (upload_failed_head @ name file @ upload_failed_mid @ msg) 5000, ''''))"

text \<open>The callback \<^verbatim>\<open>reader.onerror\<close> (lines 94-97).\<close>

definition onerror_handler :: "File \<Rightarrow> notice \<times> string" where
  "onerror_handler file = (Notice (read_failed_head @ name file @ read_failed_tail) 5000, '''')"

text \<open>
  The body of the \<^verbatim>\<open>map\<close> callback: one promise per file. \<^verbatim>\<open>reject\<close> is never
  called. An exception in the \<^verbatim>\<open>.catch\<close> callback rejects only the promise of the
  axios chain, which nobody observes, so the promise of the file stays pending.
\<close>

definition upload_one ::
  "MyPluginSettings \<Rightarrow> string \<Rightarrow> File \<Rightarrow> read_outcome \<Rightarrow> (request \<Rightarrow> post_outcome) \<Rightarrow> op_result" where
  "upload_one settings filePath file rd post =
     (case rd of
        ReadError \<Rightarrow>
          (case onerror_handler file of
             (n, v) \<Rightarrow> \<lparr>requests = [], notices = [n], settled = Fulfilled v\<rparr>)
      | ReadLoaded result \<Rightarrow>
          (let req = make_request settings filePath file result in
           case post req of
             PostFulfilled res \<Rightarrow>
               \<lparr>requests = [req], notices = [], settled = Fulfilled (then_handler file res)\<rparr>
           | PostRejected err \<Rightarrow>
               (case catch_handler file err of
                  Inl e \<Rightarrow> \<lparr>requests = [req], notices = [], settled = Pending\<rparr>
                | Inr (n, v) \<Rightarrow> \<lparr>requests = [req], notices = [n], settled = Fulfilled v\<rparr>)))"

section \<open>\<^verbatim>\<open>Promise.all\<close>\<close>

text \<open>
  \<^verbatim>\<open>Promise.all\<close> keeps one slot per element. An element that is fulfilled writes its
  value into the slot of its own index, the first rejection rejects the whole, and the
  whole is fulfilled with the values in index order once every slot is written. The
  elements settle in an order the program does not control: \<open>order\<close> lists the indices
  in the order in which the environment lets them settle, and an element that stays
  pending writes nothing.
\<close>

record 'a all_state =
  slots :: "'a option list"
  failed :: bool

definition all_init :: "nat \<Rightarrow> 'a all_state" where
  "all_init n = \<lparr>slots = replicate n None, failed = False\<rparr>"

definition all_settle :: "'a promise list \<Rightarrow> nat \<Rightarrow> 'a all_state \<Rightarrow> 'a all_state" where
  "all_settle ps i st =
     (if i < length ps then
        (case ps ! i of
           Fulfilled v \<Rightarrow> st\<lparr>slots := (slots st)[i := Some v]\<rparr>
         | Rejected \<Rightarrow> st\<lparr>failed := True\<rparr>
         | Pending \<Rightarrow> st)
      else st)"

definition promise_all :: "'a promise list \<Rightarrow> nat list \<Rightarrow> 'a list promise" where
  "promise_all ps order =
     (let st = fold (all_settle ps) order (all_init (length ps)) in
      if failed st then Rejected
      else case those (slots st) of Some vs \<Rightarrow> Fulfilled vs | None \<Rightarrow> Pending)"

text \<open>An order in which \<open>n\<close> elements can settle: every index once.\<close>

definition completion_order :: "nat \<Rightarrow> nat list \<Rightarrow> bool" where
  "completion_order n order = (sort order = [0..<n])"

section \<open>The batch: \<^verbatim>\<open>uploadToGitee\<close> (lines 72-101)\<close>

text \<open>
  The environment of one batch: what the reader and the server answer for the element
  of each index, and the order in which the elements settle.
\<close>

record world =
  reader :: "nat \<Rightarrow> read_outcome"
  server :: "nat \<Rightarrow> request \<Rightarrow> post_outcome"
  completion :: "nat list"

text \<open>The two filters of lines 73 and 77.\<close>

definition tooLargeFiles :: "File list \<Rightarrow> File list" where
  "tooLargeFiles fileList = filter (\<lambda>file. size_bytes file > 1024 * 1024 * 10) fileList"

definition accepted :: "File list \<Rightarrow> File list" where
  "accepted fileList = filter (\<lambda>file. size_bytes file \<le> 1024 * 1024 * 10) fileList"

text \<open>Lines 74-76: the notice about the files that are too large.\<close>

definition size_warning :: "File list \<Rightarrow> notice list" where
  "size_warning fileList =
     (if tooLargeFiles fileList \<noteq> []
      then [Notice (too_large_head @ join (map name (tooLargeFiles fileList)) name_separator
                    @ too_large_tail) 5000]
      else [])"

text \<open>Lines 77-100: one promise per accepted file, in the order of the file list.\<close>

definition operations :: "File list \<Rightarrow> MyPluginSettings \<Rightarrow> string \<Rightarrow> world \<Rightarrow> op_result list" where
  "operations fileList settings filePath w =
     map (\<lambda>i. upload_one settings filePath (accepted fileList ! i) (reader w i) (server w i))
       [0..<length (accepted fileList)]"

text \<open>
  What a call of \<^verbatim>\<open>uploadToGitee\<close> does: the files it starts an operation for, the
  requests each of them issues, the notices in the order they appear (the warning
  synchronously, those of the operations as they settle), and the promise returned.
\<close>

record batch =
  attempted :: "File list"
  issued :: "request list list"
  shown :: "notice list"
  returned :: "string list promise"

definition uploadToGitee :: "File list \<Rightarrow> MyPluginSettings \<Rightarrow> string \<Rightarrow> world \<Rightarrow> batch" where
  "uploadToGitee fileList settings filePath w =
     (let ops = operations fileList settings filePath w in
      \<lparr>attempted = accepted fileList,
       issued = map requests ops,
       shown = size_warning fileList
               @ concat (map (\<lambda>i. notices (ops ! i)) (filter (\<lambda>i. i < length ops) (completion w))),
       returned = promise_all (map settled ops) (completion w)\<rparr>)"

text \<open>
  The continuation of lines 53-55 and 140-143:
  \<^verbatim>\<open>res => editor.replaceSelection(res.filter(x => x).join('\n'))\<close>. It runs only
  when the promise is fulfilled; a string is truthy when it is not empty.
\<close>

definition joined :: "string list \<Rightarrow> string" where
  "joined res = join (filter (\<lambda>x. x \<noteq> '''') res) [CHR 0x0A]"

definition replaceSelection :: "string list promise \<Rightarrow> string option" where
  "replaceSelection p = (case p of Fulfilled res \<Rightarrow> Some (joined res) | _ \<Rightarrow> None)"

section \<open>Settings: \<^verbatim>\<open>loadSettings\<close>, \<^verbatim>\<open>saveSettings\<close> and the settings tab\<close>

text \<open>
  The content of the plugin's data file as \<^verbatim>\<open>loadData\<close> returns it: \<^verbatim>\<open>null\<close> when
  nothing was saved yet, else an object that has some of the five properties (a file
  written by \<^verbatim>\<open>saveData\<close> has all of them).
\<close>

record saved_data =
  saved_repo :: "string option"
  saved_branch :: "string option"
  saved_path :: "string option"
  saved_token :: "string option"
  saved_subPathable :: "bool option"

text \<open>
  \<^verbatim>\<open>Object.assign({}, defaults, source)\<close>: every property the source has replaces
  the default; a \<^verbatim>\<open>null\<close> source adds nothing.
\<close>

definition object_assign :: "MyPluginSettings \<Rightarrow> saved_data option \<Rightarrow> MyPluginSettings" where
  "object_assign defaults source =
     (case source of
        None \<Rightarrow> defaults
      | Some d \<Rightarrow>
          \<lparr>repo = (case saved_repo d of Some v \<Rightarrow> v | None \<Rightarrow> repo defaults),
           branch = (case saved_branch d of Some v \<Rightarrow> v | None \<Rightarrow> branch defaults),
           path = (case saved_path d of Some v \<Rightarrow> v | None \<Rightarrow> path defaults),
           token = (case saved_token d of Some v \<Rightarrow> v | None \<Rightarrow> token defaults),
           subPathable =
             (case saved_subPathable d of Some v \<Rightarrow> v | None \<Rightarrow> subPathable defaults)\<rparr>)"

text \<open>\<^verbatim>\<open>saveData(settings)\<close> writes the whole object.\<close>

definition saveData :: "MyPluginSettings \<Rightarrow> saved_data option" where
  "saveData s =
     Some \<lparr>saved_repo = Some (repo s), saved_branch = Some (branch s),
           saved_path = Some (path s), saved_token = Some (token s),
           saved_subPathable = Some (subPathable s)\<rparr>"

text \<open>The plugin object: its \<^verbatim>\<open>settings\<close> property and the data file behind it.\<close>

record MyPlugin =
  settings :: MyPluginSettings
  data_file :: "saved_data option"

definition loadSettings :: "MyPlugin \<Rightarrow> MyPlugin" where
  "loadSettings plugin = plugin\<lparr>settings := object_assign DEFAULT_SETTINGS (data_file plugin)\<rparr>"

definition saveSettings :: "MyPlugin \<Rightarrow> MyPlugin" where
  "saveSettings plugin = plugin\<lparr>data_file := saveData (settings plugin)\<rparr>"

text \<open>
  The five \<^verbatim>\<open>onChange\<close> callbacks of the settings tab (lines 173-222): assign the
  property, then save.
\<close>

datatype change =
  SetRepo string | SetBranch string | SetPath string | SetToken string | SetSubPathable bool

fun onChange :: "change \<Rightarrow> MyPlugin \<Rightarrow> MyPlugin" where
  "onChange (SetRepo v) plugin = saveSettings (plugin\<lparr>settings := (settings plugin)\<lparr>repo := v\<rparr>\<rparr>)"
| "onChange (SetBranch v) plugin = saveSettings (plugin\<lparr>settings := (settings plugin)\<lparr>branch := v\<rparr>\<rparr>)"
| "onChange (SetPath v) plugin = saveSettings (plugin\<lparr>settings := (settings plugin)\<lparr>path := v\<rparr>\<rparr>)"
| "onChange (SetToken v) plugin = saveSettings (plugin\<lparr>settings := (settings plugin)\<lparr>token := v\<rparr>\<rparr>)"
| "onChange (SetSubPathable v) plugin =
     saveSettings (plugin\<lparr>settings := (settings plugin)\<lparr>subPathable := v\<rparr>\<rparr>)"

section \<open>The modal and the event handler\<close>

text \<open>
  \<^verbatim>\<open>SampleModal\<close> (lines 103-152). Its constructor reads the remembered sub-path,
  \<^verbatim>\<open>localStorage.getItem('filePath') || ''\<close>; \<^verbatim>\<open>getItem\<close> gives \<^verbatim>\<open>null\<close> for a key that
  was never set. The constructor stores a reference to the settings object of the
  plugin, not a copy: \<open>modal_settings\<close> is what that object holds when the modal is
  made.
\<close>

record SampleModal =
  modal_filePath :: string
  modal_fileList :: "File list"
  modal_settings :: MyPluginSettings

definition new_SampleModal :: "string option \<Rightarrow> File list \<Rightarrow> MyPluginSettings \<Rightarrow> SampleModal" where
  "new_SampleModal stored fileList s =
     \<lparr>modal_filePath = (case stored of None \<Rightarrow> '''' | Some v \<Rightarrow> if v = '''' then '''' else v),
      modal_fileList = fileList,
      modal_settings = s\<rparr>"

text \<open>
  The click on the upload button (lines 139-144). \<^verbatim>\<open>this.settings\<close> of the modal is
  the settings object of the plugin itself, which the settings tab changes in place
  (the plugin replaces the object only in \<^verbatim>\<open>loadSettings\<close>, at start-up), so the
  upload reads the settings as the plugin has them at the click.
\<close>

definition modal_submit :: "SampleModal \<Rightarrow> MyPlugin \<Rightarrow> world \<Rightarrow> batch" where
  "modal_submit m plugin w =
     uploadToGitee (modal_fileList m) (settings plugin) (modal_filePath m) w"

text \<open>
  The DOM event, reduced to the two flags that \<^verbatim>\<open>preventDefault\<close> and
  \<^verbatim>\<open>stopPropagation\<close> set and to the files it carries:
  \<^verbatim>\<open>event.clipboardData?.files\<close> of a paste and \<^verbatim>\<open>event.dataTransfer?.files\<close> of a
  drop, each \<^verbatim>\<open>undefined\<close> when the event has no such data. A handler reads only the
  one of its own kind of event.
\<close>

record event =
  defaultPrevented :: bool
  propagationStopped :: bool
  clipboardData :: "File list option"
  dataTransfer :: "File list option"

text \<open>
  What one call of \<^verbatim>\<open>uploadFiles\<close> (lines 43-57) leaves behind: the event, the modal
  it opened if any, the batch it started itself if any.
\<close>

record handled =
  event_after :: event
  opened :: "SampleModal option"
  started :: "batch option"

text \<open>
  \<^verbatim>\<open>files\<close> is \<^verbatim>\<open>undefined\<close> when the event carries no clipboard data or data
  transfer; \<^verbatim>\<open>!files?.length\<close> holds for \<^verbatim>\<open>undefined\<close> and for the empty list. The
  direct call of line 53 leaves the third parameter of \<^verbatim>\<open>uploadToGitee\<close> to its
  default \<^verbatim>\<open>''\<close>.
\<close>

definition uploadFiles ::
  "MyPlugin \<Rightarrow> string option \<Rightarrow> File list option \<Rightarrow> event \<Rightarrow> world \<Rightarrow> handled" where
  "uploadFiles plugin stored files ev w =
     (case files of
        None \<Rightarrow> \<lparr>event_after = ev, opened = None, started = None\<rparr>
      | Some fileList \<Rightarrow>
          if length fileList = 0 then \<lparr>event_after = ev, opened = None, started = None\<rparr>
          else
            (let ev' = ev\<lparr>defaultPrevented := True, propagationStopped := True\<rparr> in
             if subPathable (settings plugin)
             then \<lparr>event_after = ev',
                   opened = Some (new_SampleModal stored fileList (settings plugin)),
                   started = None\<rparr>
             else \<lparr>event_after = ev', opened = None,
                   started = Some (uploadToGitee fileList (settings plugin) '''' w)\<rparr>))"

text \<open>
  The two callbacks that \<^verbatim>\<open>onload\<close> registers (lines 28-37), for
  \<^verbatim>\<open>editor-paste\<close> and \<^verbatim>\<open>editor-drop\<close>.
\<close>

datatype editor_event = EditorPaste | EditorDrop

fun files_of :: "editor_event \<Rightarrow> event \<Rightarrow> File list option" where
  "files_of EditorPaste ev = clipboardData ev"
| "files_of EditorDrop ev = dataTransfer ev"

definition on_editor_event ::
  "editor_event \<Rightarrow> MyPlugin \<Rightarrow> string option \<Rightarrow> event \<Rightarrow> world \<Rightarrow> handled" where
  "on_editor_event kind plugin stored ev w = uploadFiles plugin stored (files_of kind ev) ev w"

section \<open>Environments and files for concrete runs\<close>

text \<open>An event that carries the given files, before any handler has seen it.\<close>

definition paste_of :: "File list option \<Rightarrow> event" where
  "paste_of files =
     \<lparr>defaultPrevented = False, propagationStopped = False,
      clipboardData = files, dataTransfer = None\<rparr>"

definition drop_of :: "File list option \<Rightarrow> event" where
  "drop_of files =
     \<lparr>defaultPrevented = False, propagationStopped = False,
      clipboardData = None, dataTransfer = files\<rparr>"

text \<open>A reader and a server that answer every element alike.\<close>

definition read_all :: "read_outcome \<Rightarrow> nat \<Rightarrow> read_outcome" where
  "read_all out i = out"

definition answer_all :: "post_outcome \<Rightarrow> nat \<Rightarrow> request \<Rightarrow> post_outcome" where
  "answer_all out i req = out"

text \<open>
  Three small files and an environment in which the second cannot be read, every
  request succeeds, and the operations settle in the order third, first, second.
\<close>

definition demo_files :: "File list" where
  "demo_files =
     [\<lparr>name = ''a.png'', size_bytes = 5, type = ''image/png''\<rparr>,
      \<lparr>name = ''b.bin'', size_bytes = 7, type = ''''\<rparr>,
      \<lparr>name = ''c.txt'', size_bytes = 9, type = ''text/plain''\<rparr>]"

definition demo_world :: world where
  "demo_world =
     \<lparr>reader = (read_all (ReadLoaded ''data:;base64,QUJD''))(1 := ReadError),
      server = answer_all (PostFulfilled (AxiosResponse ''https://x/f'')),
      completion = [2, 0, 1]\<rparr>"

section \<open>Telling the notices apart\<close>

text \<open>The warning of line 75 is the only notice that starts with its fixed head.\<close>

definition is_size_warning :: "notice \<Rightarrow> bool" where
  "is_size_warning n = prefix too_large_head (notice_text n)"

section \<open>Auxiliary facts\<close>

subsection \<open>Substring search and joining\<close>

lemma js_includes_sublist: "js_includes s sub \<longleftrightarrow> sublist sub s"
  by (induction s) (auto simp: sublist_Cons_right)

lemma includes_append: "js_includes (a @ sub @ b) sub"
  by (simp add: js_includes_sublist)

lemma image_slash_includes: "prefix ''image/'' t \<Longrightarrow> js_includes t ''image''"
proof -
  assume "prefix ''image/'' t"
  then obtain r where "t = ''image/'' @ r" by (auto simp: prefix_def)
  then have "t = [] @ ''image'' @ (''/'' @ r)" by simp
  then show ?thesis using includes_append by metis
qed

lemma in_join_sublist: "x \<in> set xs \<Longrightarrow> sublist x (join xs sep)"
proof (induction xs sep rule: join.induct)
  case (1 sep)
  then show ?case by simp
next
  case (2 x' sep)
  then show ?case by simp
next
  case (3 x' y ys sep)
  show ?case
  proof (cases "x = x'")
    case True
    then show ?thesis by (simp add: sublist_append)
  next
    case False
    then have "sublist x (join (y # ys) sep)" using 3 by simp
    then show ?thesis by (simp add: sublist_append)
  qed
qed

subsection \<open>Slots of \<^verbatim>\<open>Promise.all\<close>\<close>

lemma those_map_Some: "those (map Some xs) = Some xs"
  by (induction xs) auto

lemma those_None: "None \<in> set xs \<Longrightarrow> those xs = None"
  by (induction xs) (auto split: option.splits)

lemma fold_settle_length:
  "length (slots (fold (all_settle ps) order st)) = length (slots st)"
  by (induction order arbitrary: st) (auto simp: all_settle_def split: promise.splits)

lemma fold_settle_failed:
  "failed (fold (all_settle ps) order st) \<longleftrightarrow>
     failed st \<or> (\<exists>i \<in> set order. i < length ps \<and> ps ! i = Rejected)"
  by (induction order arbitrary: st) (auto simp: all_settle_def split: promise.splits)

lemma settle_length: "length (slots (all_settle ps j st)) = length (slots st)"
  by (simp add: all_settle_def split: promise.splits)

lemma settle_hit:
  "j < length ps \<Longrightarrow> ps ! j = Fulfilled v \<Longrightarrow> j < length (slots st) \<Longrightarrow>
   slots (all_settle ps j st) ! j = Some v"
  by (simp add: all_settle_def)

lemma settle_miss:
  "i \<noteq> j \<or> \<not> j < length ps \<or> (\<forall>v. ps ! j \<noteq> Fulfilled v) \<Longrightarrow>
   slots (all_settle ps j st) ! i = slots st ! i"
  by (auto simp: all_settle_def split: promise.splits)

lemma fold_settle_written:
  "ps ! i = Fulfilled v \<Longrightarrow> i < length ps \<Longrightarrow> i < length (slots st) \<Longrightarrow>
   i \<in> set order \<or> slots st ! i = Some v \<Longrightarrow>
   slots (fold (all_settle ps) order st) ! i = Some v"
proof (induction order arbitrary: st)
  case Nil
  then show ?case by simp
next
  case (Cons j order)
  have len: "i < length (slots (all_settle ps j st))"
    using Cons.prems(3) by (simp add: settle_length)
  have "i \<in> set order \<or> slots (all_settle ps j st) ! i = Some v"
  proof (cases "i = j")
    case True
    have "slots (all_settle ps i st) ! i = Some v"
      using Cons.prems(2) Cons.prems(1) Cons.prems(3) by (rule settle_hit)
    then show ?thesis using True by simp
  next
    case False
    then have "slots (all_settle ps j st) ! i = slots st ! i"
      by (simp add: settle_miss)
    then show ?thesis using Cons.prems(4) False by simp
  qed
  then have "slots (fold (all_settle ps) order (all_settle ps j st)) ! i = Some v"
    using Cons.prems(1) Cons.prems(2) len by (intro Cons.IH)
  then show ?case by simp
qed

lemma fold_settle_untouched:
  "(\<forall>v. ps ! i \<noteq> Fulfilled v) \<or> i \<notin> set order \<or> \<not> i < length ps \<Longrightarrow>
   slots (fold (all_settle ps) order st) ! i = slots st ! i"
proof (induction order arbitrary: st)
  case Nil
  then show ?case by simp
next
  case (Cons j order)
  have "slots (all_settle ps j st) ! i = slots st ! i"
    using Cons.prems by (intro settle_miss) auto
  moreover have "slots (fold (all_settle ps) order (all_settle ps j st)) ! i
      = slots (all_settle ps j st) ! i"
    using Cons.prems by (intro Cons.IH) auto
  ultimately show ?case by simp
qed

lemma no_reject_no_fail:
  assumes "Rejected \<notin> set ps"
  shows "\<not> failed (fold (all_settle ps) order (all_init (length ps)))"
proof -
  have "ps ! i \<noteq> Rejected" if "i < length ps" for i
    using assms that nth_mem by metis
  then show ?thesis
    by (simp add: fold_settle_failed all_init_def)
qed

lemma promise_all_fulfilled:
  assumes "ps = map Fulfilled rs" and "{..<length rs} \<subseteq> set order"
  shows "promise_all ps order = Fulfilled rs"
proof -
  let ?st = "fold (all_settle ps) order (all_init (length ps))"
  have "Rejected \<notin> set ps"
    using assms(1) by auto
  then have nofail: "\<not> failed ?st"
    by (rule no_reject_no_fail)
  have len: "length (slots ?st) = length rs"
    using assms(1) by (simp add: fold_settle_length all_init_def)
  have "slots ?st ! i = Some (rs ! i)" if "i < length rs" for i
  proof (rule fold_settle_written)
    show "ps ! i = Fulfilled (rs ! i)" using that assms(1) by simp
    show "i < length ps" using that assms(1) by simp
    show "i < length (slots (all_init (length ps)))" using that assms(1) by (simp add: all_init_def)
    show "i \<in> set order \<or> slots (all_init (length ps)) ! i = Some (rs ! i)"
      using that assms(2) by auto
  qed
  then have "slots ?st = map Some rs"
    using len by (intro nth_equalityI) simp_all
  then show ?thesis
    using nofail by (simp add: promise_all_def those_map_Some)
qed

lemma promise_all_pending:
  assumes "i < length ps" and "ps ! i = Pending" and "Rejected \<notin> set ps"
  shows "promise_all ps order = Pending"
proof -
  let ?st = "fold (all_settle ps) order (all_init (length ps))"
  have nofail: "\<not> failed ?st"
    using assms(3) by (rule no_reject_no_fail)
  have len: "length (slots ?st) = length ps"
    by (simp add: fold_settle_length all_init_def)
  have "slots ?st ! i = slots (all_init (length ps)) ! i"
    using assms(2) by (intro fold_settle_untouched) simp
  then have "slots ?st ! i = None"
    using assms(1) by (simp add: all_init_def)
  moreover have "slots ?st ! i \<in> set (slots ?st)"
    using len assms(1) by simp
  ultimately have "None \<in> set (slots ?st)"
    by simp
  then show ?thesis
    using nofail by (simp add: promise_all_def those_None)
qed

lemma promise_all_not_rejected:
  "Rejected \<notin> set ps \<Longrightarrow> promise_all ps order \<noteq> Rejected"
  using no_reject_no_fail [of ps order]
  by (simp add: promise_all_def Let_def split: option.splits)

lemma completion_order_set: "completion_order n order \<Longrightarrow> set order = {..<n}"
proof -
  assume "completion_order n order"
  then have "set (sort order) = set [0..<n]"
    by (simp add: completion_order_def)
  then show ?thesis by (simp add: lessThan_atLeast0)
qed

subsection \<open>The operation of one file\<close>

lemma make_request_branch: "make_request (s\<lparr>branch := b\<rparr>) fp f result = make_request s fp f result"
  by (simp add: make_request_def)

lemma upload_one_branch: "upload_one (s\<lparr>branch := b\<rparr>) fp f rd post = upload_one s fp f rd post"
  by (cases rd) (simp_all add: upload_one_def make_request_branch)

lemma upload_one_not_rejected: "settled (upload_one s fp f rd post) \<noteq> Rejected"
  by (cases rd)
     (auto simp: upload_one_def Let_def onerror_handler_def split: post_outcome.splits sum.splits)

lemma upload_one_notice_not_warning:
  "n \<in> set (notices (upload_one s fp f rd post)) \<Longrightarrow> \<not> is_size_warning n"
  by (cases rd)
     (auto simp: upload_one_def Let_def onerror_handler_def catch_handler_def is_size_warning_def
        too_large_head_def read_failed_head_def upload_failed_head_def
        split: post_outcome.splits sum.splits option.splits)

lemma requests_loaded:
  "requests (upload_one s fp f (ReadLoaded result) post) = [make_request s fp f result]"
  by (simp add: upload_one_def Let_def split: post_outcome.splits sum.splits)

lemma requests_read_error: "requests (upload_one s fp f ReadError post) = []"
  by (simp add: upload_one_def onerror_handler_def)

lemma rejected_with_response:
  assumes "post (make_request s fp f result) = PostRejected (AxiosError (Some msg))"
  shows "notices (upload_one s fp f (ReadLoaded result) post)
           = [Notice (upload_failed_head @ name f @ upload_failed_mid @ msg) 5000]
         \<and> settled (upload_one s fp f (ReadLoaded result) post) = Fulfilled ''''"
  using assms by (simp add: upload_one_def Let_def catch_handler_def)

lemma rejected_without_response:
  assumes "post (make_request s fp f result) = PostRejected (AxiosError None)"
  shows "notices (upload_one s fp f (ReadLoaded result) post) = []
         \<and> settled (upload_one s fp f (ReadLoaded result) post) = Pending"
  using assms by (simp add: upload_one_def Let_def catch_handler_def)

subsection \<open>The operations of a batch\<close>

lemma operations_length: "length (operations fileList s fp w) = length (accepted fileList)"
  by (simp add: operations_def)

lemma operations_nth:
  "i < length (accepted fileList) \<Longrightarrow>
   operations fileList s fp w ! i =
     upload_one s fp (accepted fileList ! i) (reader w i) (server w i)"
  by (simp add: operations_def)

lemma operations_completion:
  "operations fileList s fp (w\<lparr>completion := order\<rparr>) = operations fileList s fp w"
  by (simp add: operations_def)

lemma operations_not_rejected: "Rejected \<notin> set (map settled (operations fileList s fp w))"
  by (auto simp: operations_def upload_one_not_rejected [THEN not_sym])

lemma batch_hangs_without_response:
  assumes "i < length (accepted fileList)" and "reader w i = ReadLoaded result"
    and "server w i (make_request s fp (accepted fileList ! i) result)
           = PostRejected (AxiosError None)"
  shows "returned (uploadToGitee fileList s fp w) = Pending"
proof -
  let ?ps = "map settled (operations fileList s fp w)"
  have "settled (operations fileList s fp w ! i) = Pending"
    using assms by (simp add: operations_nth rejected_without_response)
  then have "?ps ! i = Pending"
    using assms(1) by (simp add: operations_length)
  moreover have "i < length ?ps"
    using assms(1) by (simp add: operations_length)
  ultimately have "promise_all ?ps (completion w) = Pending"
    using operations_not_rejected by (intro promise_all_pending)
  then show ?thesis
    by (simp add: uploadToGitee_def Let_def)
qed

lemma too_large_nonempty:
  "tooLargeFiles fileList \<noteq> [] \<longleftrightarrow> (\<exists>f \<in> set fileList. 1024 * 1024 * 10 < size_bytes f)"
  by (auto simp: tooLargeFiles_def filter_empty_conv)

lemma size_warning_kept: "filter is_size_warning (size_warning fileList) = size_warning fileList"
  by (simp add: size_warning_def is_size_warning_def)

lemma op_notices_dropped:
  "filter is_size_warning
     (concat (map (\<lambda>i. notices (operations fileList s fp w ! i)) js)) = []"
  if "\<forall>j \<in> set js. j < length (operations fileList s fp w)"
  using that
  by (induction js)
     (auto simp: operations_length operations_nth filter_empty_conv upload_one_notice_not_warning)

section \<open>Failures of one file\<close>

text \<open>
  C1. A file of an accepted batch whose request fails should get a notice with its name
  and the server's message and resolve to the empty string, so that the batch settles.
  The callback of \<^verbatim>\<open>.catch\<close> does this when the error carries a response
  (\<open>rejected_with_response\<close> above). For a network error, where \<^verbatim>\<open>err.response\<close> is
  \<^verbatim>\<open>undefined\<close>, it throws while building the text of the notice
  (\<open>rejected_without_response\<close>, \<open>batch_hangs_without_response\<close>): for the file
  \<^verbatim>\<open>a.png\<close>, read without error, whose request gets no response, no notice is shown
  and the promise of the file stays pending, and so does the promise of the batch, and
  nothing is given to the editor.
\<close>

theorem network_error_hangs:
  "notices (upload_one DEFAULT_SETTINGS '''' \<lparr>name = ''a.png'', size_bytes = 5, type = ''image/png''\<rparr>
      (ReadLoaded ''data:image/png;base64,QUJD'') (answer_all (PostRejected (AxiosError None)) 0)) = []
   \<and> settled (upload_one DEFAULT_SETTINGS '''' \<lparr>name = ''a.png'', size_bytes = 5, type = ''image/png''\<rparr>
      (ReadLoaded ''data:image/png;base64,QUJD'') (answer_all (PostRejected (AxiosError None)) 0)) = Pending
   \<and> shown (uploadToGitee [\<lparr>name = ''a.png'', size_bytes = 5, type = ''image/png''\<rparr>] DEFAULT_SETTINGS ''''
        \<lparr>reader = read_all (ReadLoaded ''data:image/png;base64,QUJD''),
         server = answer_all (PostRejected (AxiosError None)), completion = [0]\<rparr>) = []
   \<and> returned (uploadToGitee [\<lparr>name = ''a.png'', size_bytes = 5, type = ''image/png''\<rparr>] DEFAULT_SETTINGS ''''
        \<lparr>reader = read_all (ReadLoaded ''data:image/png;base64,QUJD''),
         server = answer_all (PostRejected (AxiosError None)), completion = [0]\<rparr>) = Pending
   \<and> replaceSelection (returned (uploadToGitee
        [\<lparr>name = ''a.png'', size_bytes = 5, type = ''image/png''\<rparr>] DEFAULT_SETTINGS ''''
        \<lparr>reader = read_all (ReadLoaded ''data:image/png;base64,QUJD''),
         server = answer_all (PostRejected (AxiosError None)), completion = [0]\<rparr>)) = None"
  by (simp add: upload_one_def answer_all_def read_all_def catch_handler_def uploadToGitee_def
      operations_def accepted_def promise_all_def all_settle_def all_init_def size_warning_def
      tooLargeFiles_def replaceSelection_def)

text \<open>
  C2. When the read of an accepted file fails, the failure does not reach the caller:
  the operation of that file issues no request, shows one notice that names the file
  and resolves to the empty string; the notice is among those of the batch once the
  operation has settled; the promise of the batch is never rejected; and when the
  operations of the other files settle, the batch is fulfilled, with the empty string in
  the position of this file, and the text is inserted.
\<close>

theorem read_failure_is_soft:
  assumes "i < length (accepted fileList)" and "reader w i = ReadError"
  shows "operations fileList s fp w ! i
           = \<lparr>requests = [],
              notices = [Notice (read_failed_head @ name (accepted fileList ! i) @ read_failed_tail) 5000],
              settled = Fulfilled ''''\<rparr>
         \<and> (i \<in> set (completion w) \<longrightarrow>
              Notice (read_failed_head @ name (accepted fileList ! i) @ read_failed_tail) 5000
                \<in> set (shown (uploadToGitee fileList s fp w)))
         \<and> returned (uploadToGitee fileList s fp w) \<noteq> Rejected
         \<and> (completion_order (length (accepted fileList)) (completion w)
              \<and> (\<forall>j < length (accepted fileList).
                    j \<noteq> i \<longrightarrow> settled (operations fileList s fp w ! j) \<noteq> Pending)
            \<longrightarrow> (\<exists>rs. returned (uploadToGitee fileList s fp w) = Fulfilled rs
                      \<and> length rs = length (accepted fileList) \<and> rs ! i = ''''
                      \<and> replaceSelection (returned (uploadToGitee fileList s fp w))
                          = Some (joined rs)))"
proof -
  let ?ops = "operations fileList s fp w"
  let ?b = "uploadToGitee fileList s fp w"
  let ?n = "Notice (read_failed_head @ name (accepted fileList ! i) @ read_failed_tail) 5000"
  have op: "?ops ! i = \<lparr>requests = [], notices = [?n], settled = Fulfilled ''''\<rparr>"
    using assms by (simp add: operations_nth upload_one_def onerror_handler_def)
  have shown: "?n \<in> set (shown ?b)" if "i \<in> set (completion w)"
  proof -
    have "i \<in> set (filter (\<lambda>i. i < length ?ops) (completion w))"
      using that assms(1) by (simp add: operations_length)
    moreover have "?n \<in> set (notices (?ops ! i))"
      using op by simp
    ultimately show ?thesis
      by (auto simp: uploadToGitee_def Let_def)
  qed
  have norej: "returned ?b \<noteq> Rejected"
    using operations_not_rejected [of fileList s fp w]
    by (simp add: uploadToGitee_def Let_def promise_all_not_rejected)
  have settles: "\<exists>rs. returned ?b = Fulfilled rs \<and> length rs = length (accepted fileList)
        \<and> rs ! i = '''' \<and> replaceSelection (returned ?b) = Some (joined rs)"
    if ord: "completion_order (length (accepted fileList)) (completion w)"
      and others: "\<forall>j < length (accepted fileList). j \<noteq> i \<longrightarrow> settled (?ops ! j) \<noteq> Pending"
  proof -
    define rs where "rs = map (\<lambda>op. case settled op of Fulfilled v \<Rightarrow> v | _ \<Rightarrow> '''') ?ops"
    have len: "length rs = length (accepted fileList)"
      by (simp add: rs_def operations_length)
    have each: "settled (?ops ! j) = Fulfilled (rs ! j)" if "j < length (accepted fileList)" for j
    proof (cases "j = i")
      case True
      then show ?thesis using op that by (simp add: rs_def operations_length)
    next
      case False
      then have "settled (?ops ! j) \<noteq> Pending" using others that by simp
      moreover have "settled (?ops ! j) \<noteq> Rejected"
        using that by (simp add: operations_nth upload_one_not_rejected)
      ultimately obtain v where "settled (?ops ! j) = Fulfilled v"
        by (cases "settled (?ops ! j)") simp_all
      then show ?thesis using that by (simp add: rs_def operations_length)
    qed
    have "map settled ?ops = map Fulfilled rs"
      using each len by (intro nth_equalityI) (simp_all add: operations_length)
    moreover have "{..<length rs} \<subseteq> set (completion w)"
      using ord len by (simp add: completion_order_set)
    ultimately have "promise_all (map settled ?ops) (completion w) = Fulfilled rs"
      by (rule promise_all_fulfilled)
    then have ret: "returned ?b = Fulfilled rs"
      by (simp add: uploadToGitee_def Let_def)
    have "Fulfilled (rs ! i) = Fulfilled ''''"
      using each [OF assms(1)] op by simp
    then have "rs ! i = ''''" by simp
    then show ?thesis
      using ret len by (simp add: replaceSelection_def)
  qed
  show ?thesis
    using op shown norej settles by blast
qed

text \<open>
  Three files, the second of which cannot be read, settling in the order third, first,
  second.
\<close>

theorem read_failure_is_soft_witness:
  "Notice (read_failed_head @ ''b.bin'' @ read_failed_tail) 5000
     \<in> set (shown (uploadToGitee demo_files DEFAULT_SETTINGS '''' demo_world))
   \<and> returned (uploadToGitee demo_files DEFAULT_SETTINGS '''' demo_world) \<noteq> Rejected
   \<and> (\<exists>rs. returned (uploadToGitee demo_files DEFAULT_SETTINGS '''' demo_world) = Fulfilled rs
          \<and> length rs = 3 \<and> rs ! 1 = '''')"
proof -
  have acc: "accepted demo_files = demo_files"
    by (simp add: accepted_def demo_files_def)
  have len: "length demo_files = 3"
    by (simp add: demo_files_def)
  have h1: "1 < length (accepted demo_files)"
    by (simp add: acc len)
  have h2: "reader demo_world 1 = ReadError"
    by (simp add: demo_world_def)
  have h3: "completion_order (length (accepted demo_files)) (completion demo_world)"
    by (simp add: acc len demo_world_def completion_order_def upt_rec)
  have h4: "1 \<in> set (completion demo_world)"
    by (simp add: demo_world_def)
  have ops: "map settled (operations demo_files DEFAULT_SETTINGS '''' demo_world)
      = [Fulfilled ''![a.png](https://x/f)'', Fulfilled '''', Fulfilled ''https://x/f'']"
    by (simp add: operations_def accepted_def upt_rec demo_files_def demo_world_def upload_one_def
        read_all_def answer_all_def onerror_handler_def then_handler_def)
  have h5: "\<forall>j < length (accepted demo_files).
      j \<noteq> 1 \<longrightarrow> settled (operations demo_files DEFAULT_SETTINGS '''' demo_world ! j) \<noteq> Pending"
  proof (intro allI impI)
    fix j assume j: "j < length (accepted demo_files)"
    then have "j < length (operations demo_files DEFAULT_SETTINGS '''' demo_world)"
      by (simp add: operations_length)
    then have "settled (operations demo_files DEFAULT_SETTINGS '''' demo_world ! j)
        = map settled (operations demo_files DEFAULT_SETTINGS '''' demo_world) ! j"
      by simp
    also have "\<dots> \<in> set (map settled (operations demo_files DEFAULT_SETTINGS '''' demo_world))"
      using j by (intro nth_mem) (simp add: operations_length)
    finally show "settled (operations demo_files DEFAULT_SETTINGS '''' demo_world ! j) \<noteq> Pending"
      unfolding ops by auto
  qed
  have nm: "name (demo_files ! 1) = ''b.bin''"
    by (simp add: demo_files_def)
  show ?thesis
    using read_failure_is_soft [OF h1 h2, of DEFAULT_SETTINGS "''''"] h3 h4 h5
    unfolding acc len nm by blast
qed

section \<open>Requests and results\<close>

text \<open>
  C3, as amended. An accepted file that was read issues exactly one request, to the
  path \<^verbatim>\<open>{path}/{filePath}/{name}\<close> under the contents of the repository. On the
  path without prompt the sub-path is the empty string and both separators stay: the
  request goes to \<^verbatim>\<open>{path}//{name}\<close>.
\<close>

theorem one_request_per_encoded_file:
  assumes "i < length (accepted fileList)" and "reader w i = ReadLoaded result"
  shows "issued (uploadToGitee fileList s fp w) ! i
           = [make_request s fp (accepted fileList ! i) result]
         \<and> url (make_request s fp (accepted fileList ! i) result)
           = ''https://gitee.com/api/v5/repos/'' @ repo s @ ''/contents/''
               @ path s @ ''/'' @ fp @ ''/'' @ name (accepted fileList ! i)
         \<and> (files_of kind ev = Some fileList \<and> \<not> subPathable s \<longrightarrow>
              (\<exists>b. started (on_editor_event kind \<lparr>settings = s, data_file = d\<rparr> stored ev w) = Some b
                 \<and> map url (issued b ! i)
                   = [''https://gitee.com/api/v5/repos/'' @ repo s @ ''/contents/''
                        @ path s @ ''//'' @ name (accepted fileList ! i)]))"
proof -
  have op: "operations fileList s fp' w ! i
      = upload_one s fp' (accepted fileList ! i) (ReadLoaded result) (server w i)" for fp'
    using assms by (simp add: operations_nth)
  have reqs: "requests (upload_one s fp' f (ReadLoaded result) post)
      = [make_request s fp' f result]" for fp' f post
    by (simp add: upload_one_def Let_def split: post_outcome.splits sum.splits)
  have one: "issued (uploadToGitee fileList s fp' w) ! i
      = [make_request s fp' (accepted fileList ! i) result]" for fp'
    using assms(1) by (simp add: uploadToGitee_def Let_def operations_length op reqs)
  have u: "url (make_request s fp' f result)
      = ''https://gitee.com/api/v5/repos/'' @ repo s @ ''/contents/''
          @ path s @ ''/'' @ fp' @ ''/'' @ name f" for fp' f
    by (simp add: make_request_def)
  have "fileList \<noteq> []"
    using assms(1) by (auto simp: accepted_def)
  then have direct: "started (on_editor_event kind \<lparr>settings = s, data_file = d\<rparr> stored ev w)
      = Some (uploadToGitee fileList s '''' w)"
    if "files_of kind ev = Some fileList" and "\<not> subPathable s"
    using that by (simp add: on_editor_event_def uploadFiles_def Let_def)
  show ?thesis
    using one [of fp] one [of "''''"] u [of fp] u [of "''''"] direct by simp
qed

theorem one_request_per_encoded_file_witness:
  "issued (uploadToGitee [\<lparr>name = ''a.png'', size_bytes = 5, type = ''image/png''\<rparr>]
       \<lparr>repo = ''o/r'', branch = ''master'', path = ''img'', token = ''t'', subPathable = False\<rparr>
       ''images''
       \<lparr>reader = read_all (ReadLoaded ''data:image/png;base64,QUJD''),
        server = answer_all (PostFulfilled (AxiosResponse ''https://x/a.png'')),
        completion = [0]\<rparr>) ! 0
   = [\<lparr>url = ''https://gitee.com/api/v5/repos/o/r/contents/img/images/a.png'',
       access_token = ''t'', content = ''QUJD'', message = ''upload image''\<rparr>]
   \<and> (\<exists>b. started (on_editor_event EditorDrop
          \<lparr>settings = \<lparr>repo = ''o/r'', branch = ''master'', path = ''img'', token = ''t'',
                        subPathable = False\<rparr>, data_file = None\<rparr>
          None (drop_of (Some [\<lparr>name = ''a.png'', size_bytes = 5, type = ''image/png''\<rparr>]))
          \<lparr>reader = read_all (ReadLoaded ''data:image/png;base64,QUJD''),
           server = answer_all (PostFulfilled (AxiosResponse ''https://x/a.png'')),
           completion = [0]\<rparr>) = Some b
        \<and> map url (issued b ! 0) = [''https://gitee.com/api/v5/repos/o/r/contents/img//a.png''])"
  using one_request_per_encoded_file [where i = 0
       and fileList = "[\<lparr>name = ''a.png'', size_bytes = 5, type = ''image/png''\<rparr>]"
       and w = "\<lparr>reader = read_all (ReadLoaded ''data:image/png;base64,QUJD''),
        server = answer_all (PostFulfilled (AxiosResponse ''https://x/a.png'')),
        completion = [0]\<rparr>"
       and result = "''data:image/png;base64,QUJD''"
       and s = "\<lparr>repo = ''o/r'', branch = ''master'', path = ''img'', token = ''t'', subPathable = False\<rparr>"
       and fp = "''images''" and kind = EditorDrop and d = None and stored = None
       and ev = "drop_of (Some [\<lparr>name = ''a.png'', size_bytes = 5, type = ''image/png''\<rparr>])"]
  by (simp add: accepted_def read_all_def make_request_def drop_of_def)

text \<open>
  C3 as stated fails in its second half: without prompt the segment is not left out.
  With base path \<^verbatim>\<open>img\<close> the file \<^verbatim>\<open>a.png\<close> is posted to \<^verbatim>\<open>img//a.png\<close>, not to
  \<^verbatim>\<open>img/a.png\<close>.
\<close>

theorem direct_path_counterexample:
  "map_option issued
     (started (on_editor_event EditorPaste
        \<lparr>settings = \<lparr>repo = ''o/r'', branch = ''master'', path = ''img'', token = ''t'',
                      subPathable = False\<rparr>, data_file = None\<rparr>
        None
        (paste_of (Some [\<lparr>name = ''a.png'', size_bytes = 5, type = ''image/png''\<rparr>]))
        \<lparr>reader = read_all (ReadLoaded ''data:image/png;base64,QUJD''),
         server = answer_all (PostFulfilled (AxiosResponse ''https://x/a.png'')),
         completion = [0]\<rparr>))
   = Some [[\<lparr>url = ''https://gitee.com/api/v5/repos/o/r/contents/img//a.png'',
             access_token = ''t'', content = ''QUJD'', message = ''upload image''\<rparr>]]
   \<and> ''https://gitee.com/api/v5/repos/o/r/contents/img//a.png''
       \<noteq> ''https://gitee.com/api/v5/repos/o/r/contents/img/a.png''"
  by (simp add: on_editor_event_def paste_of_def uploadFiles_def uploadToGitee_def
      operations_def accepted_def upload_one_def read_all_def answer_all_def make_request_def)

text \<open>
  C4, as amended. A successful upload resolves to \<^verbatim>\<open>![name](download_url)\<close> when the
  MIME type of the file contains \<^verbatim>\<open>image\<close> anywhere, and to the bare
  \<^verbatim>\<open>download_url\<close> otherwise; in particular a type that starts with \<^verbatim>\<open>image/\<close>
  gives the Markdown image.
\<close>

theorem success_text:
  assumes "post (make_request s fp f result) = PostFulfilled res"
  shows "settled (upload_one s fp f (ReadLoaded result) post) =
           Fulfilled (if sublist ''image'' (type f)
                      then ''!['' @ name f @ '']('' @ download_url res @ '')''
                      else download_url res)
         \<and> (prefix ''image/'' (type f) \<longrightarrow>
              settled (upload_one s fp f (ReadLoaded result) post) =
                Fulfilled (''!['' @ name f @ '']('' @ download_url res @ '')''))"
proof -
  have eq: "settled (upload_one s fp f (ReadLoaded result) post) = Fulfilled (then_handler f res)"
    using assms by (simp add: upload_one_def Let_def)
  have "prefix ''image/'' (type f) \<Longrightarrow> js_includes (type f) ''image''"
    by (rule image_slash_includes)
  then show ?thesis
    unfolding eq by (auto simp: then_handler_def js_includes_sublist)
qed

theorem success_text_witness:
  "settled (upload_one DEFAULT_SETTINGS '''' \<lparr>name = ''a.png'', size_bytes = 5, type = ''image/png''\<rparr>
      (ReadLoaded ''data:image/png;base64,QUJD'') (answer_all (PostFulfilled (AxiosResponse ''https://x/a.png'')) 0))
     = Fulfilled ''![a.png](https://x/a.png)''"
  using success_text [of "answer_all (PostFulfilled (AxiosResponse ''https://x/a.png'')) 0"
      DEFAULT_SETTINGS "''''" "\<lparr>name = ''a.png'', size_bytes = 5, type = ''image/png''\<rparr>"
      "''data:image/png;base64,QUJD''" "AxiosResponse ''https://x/a.png''"]
  by (simp add: answer_all_def)

text \<open>
  C4 as stated fails in its second half: the type
  \<^verbatim>\<open>application/vnd.oasis.opendocument.image\<close> does not start with \<^verbatim>\<open>image/\<close>, and
  the result is the Markdown image, not the bare URL.
\<close>

theorem image_prefix_counterexample:
  "\<not> prefix ''image/'' (type \<lparr>name = ''d.odi'', size_bytes = 100,
        type = ''application/vnd.oasis.opendocument.image''\<rparr>)
   \<and> then_handler \<lparr>name = ''d.odi'', size_bytes = 100,
        type = ''application/vnd.oasis.opendocument.image''\<rparr> (AxiosResponse ''https://x/d.odi'')
     = ''![d.odi](https://x/d.odi)''
   \<and> then_handler \<lparr>name = ''d.odi'', size_bytes = 100,
        type = ''application/vnd.oasis.opendocument.image''\<rparr> (AxiosResponse ''https://x/d.odi'')
     \<noteq> ''https://x/d.odi''"
  by (simp add: then_handler_def)

section \<open>The size limit\<close>

text \<open>
  C5. The files for which an operation is started are those of the list whose size is
  at most 10 * 1024 * 1024 bytes, in the order of the list: a file is among them if
  and only if it is in the list and within the limit, a larger file never is. Every
  request that is issued is the request of one of them, and each of them that is read
  issues its request: the requests of the batch are, position by position, the one
  request of each file within the limit whose read succeeds, and none for a file whose
  read fails.
\<close>

theorem only_small_files_attempted:
  "attempted (uploadToGitee fileList s fp w) =
     filter (\<lambda>f. size_bytes f \<le> 10 * 1024 * 1024) fileList
   \<and> (f \<in> set (attempted (uploadToGitee fileList s fp w)) \<longleftrightarrow>
        f \<in> set fileList \<and> size_bytes f \<le> 10 * 1024 * 1024)
   \<and> (10 * 1024 * 1024 < size_bytes f \<longrightarrow> f \<notin> set (attempted (uploadToGitee fileList s fp w)))
   \<and> length (issued (uploadToGitee fileList s fp w)) =
       length (attempted (uploadToGitee fileList s fp w))
   \<and> (\<forall>i < length (attempted (uploadToGitee fileList s fp w)).
        \<forall>r \<in> set (issued (uploadToGitee fileList s fp w) ! i).
          size_bytes (attempted (uploadToGitee fileList s fp w) ! i) \<le> 10 * 1024 * 1024
          \<and> (\<exists>result. r = make_request s fp (attempted (uploadToGitee fileList s fp w) ! i) result))
   \<and> issued (uploadToGitee fileList s fp w) =
       map (\<lambda>i. case reader w i of
                   ReadLoaded result \<Rightarrow>
                     [make_request s fp
                        (filter (\<lambda>f. size_bytes f \<le> 10 * 1024 * 1024) fileList ! i) result]
                 | ReadError \<Rightarrow> [])
         [0..<length (filter (\<lambda>f. size_bytes f \<le> 10 * 1024 * 1024) fileList)]
   \<and> (\<forall>i < length (attempted (uploadToGitee fileList s fp w)).
        (\<forall>result. reader w i = ReadLoaded result \<longrightarrow>
           issued (uploadToGitee fileList s fp w) ! i
             = [make_request s fp (attempted (uploadToGitee fileList s fp w) ! i) result])
        \<and> (reader w i = ReadError \<longrightarrow> issued (uploadToGitee fileList s fp w) ! i = []))"
proof -
  let ?b = "uploadToGitee fileList s fp w"
  let ?small = "filter (\<lambda>f. size_bytes f \<le> 10 * 1024 * 1024) fileList"
  have att: "attempted ?b = accepted fileList"
    by (simp add: uploadToGitee_def Let_def)
  have acc: "accepted fileList = ?small"
    by (simp add: accepted_def)
  have len: "length (issued ?b) = length (attempted ?b)"
    by (simp add: uploadToGitee_def Let_def operations_length)
  have small: "size_bytes (accepted fileList ! i) \<le> 10 * 1024 * 1024"
    if "i < length (accepted fileList)" for i
  proof -
    have "accepted fileList ! i \<in> set (accepted fileList)" using that by simp
    then show ?thesis by (simp add: acc)
  qed
  have slot: "issued ?b ! i =
      requests (upload_one s fp (accepted fileList ! i) (reader w i) (server w i))"
    if "i < length (accepted fileList)" for i
    using that by (simp add: uploadToGitee_def Let_def operations_length operations_nth)
  have loaded: "issued ?b ! i = [make_request s fp (accepted fileList ! i) result]"
    if "i < length (accepted fileList)" and "reader w i = ReadLoaded result" for i result
    using that by (simp add: slot requests_loaded)
  have failed: "issued ?b ! i = []"
    if "i < length (accepted fileList)" and "reader w i = ReadError" for i
    using that by (simp add: slot requests_read_error)
  have req: "\<exists>result. r = make_request s fp (accepted fileList ! i) result"
    if "i < length (accepted fileList)" and "r \<in> set (issued ?b ! i)" for i r
  proof (cases "reader w i")
    case (ReadLoaded result)
    then show ?thesis using that loaded by auto
  next
    case ReadError
    then show ?thesis using that failed by auto
  qed
  have whole: "issued ?b =
      map (\<lambda>i. case reader w i of
                  ReadLoaded result \<Rightarrow> [make_request s fp (?small ! i) result]
                | ReadError \<Rightarrow> [])
        [0..<length ?small]"
  proof (rule nth_equalityI)
    show "length (issued ?b) = length (map (\<lambda>i. case reader w i of
                  ReadLoaded result \<Rightarrow> [make_request s fp (?small ! i) result]
                | ReadError \<Rightarrow> []) [0..<length ?small])"
      using len att acc by simp
  next
    fix i assume "i < length (issued ?b)"
    then have i: "i < length (accepted fileList)"
      using len att by simp
    then have i': "i < length ?small"
      using acc by simp
    show "issued ?b ! i = map (\<lambda>i. case reader w i of
                  ReadLoaded result \<Rightarrow> [make_request s fp (?small ! i) result]
                | ReadError \<Rightarrow> []) [0..<length ?small] ! i"
    proof (cases "reader w i")
      case (ReadLoaded result)
      then show ?thesis using loaded [OF i] i' acc by simp
    next
      case ReadError
      then show ?thesis using failed [OF i] i' by simp
    qed
  qed
  have first: "attempted ?b = ?small"
    using att acc by simp
  have mem: "f \<in> set (attempted ?b) \<longleftrightarrow> f \<in> set fileList \<and> size_bytes f \<le> 10 * 1024 * 1024"
    using first by simp
  have big: "10 * 1024 * 1024 < size_bytes f \<longrightarrow> f \<notin> set (attempted ?b)"
    using first by simp
  have upper: "\<forall>i < length (attempted ?b). \<forall>r \<in> set (issued ?b ! i).
      size_bytes (attempted ?b ! i) \<le> 10 * 1024 * 1024
      \<and> (\<exists>result. r = make_request s fp (attempted ?b ! i) result)"
    using small req unfolding att by blast
  have lower: "\<forall>i < length (attempted ?b).
      (\<forall>result. reader w i = ReadLoaded result \<longrightarrow>
         issued ?b ! i = [make_request s fp (attempted ?b ! i) result])
      \<and> (reader w i = ReadError \<longrightarrow> issued ?b ! i = [])"
    using loaded failed unfolding att by blast
  show ?thesis
    using first mem big len upper whole lower by (intro conjI)
qed

theorem only_small_files_attempted_witness:
  "attempted (uploadToGitee
        [\<lparr>name = ''a.png'', size_bytes = 5242880, type = ''image/png''\<rparr>,
         \<lparr>name = ''b.pdf'', size_bytes = 15728640, type = ''application/pdf''\<rparr>]
        DEFAULT_SETTINGS ''''
        \<lparr>reader = read_all (ReadLoaded ''data:image/png;base64,QUJD''),
         server = answer_all (PostFulfilled (AxiosResponse ''https://x/a.png'')),
         completion = [0]\<rparr>)
     = [\<lparr>name = ''a.png'', size_bytes = 5242880, type = ''image/png''\<rparr>]
   \<and> \<lparr>name = ''b.pdf'', size_bytes = 15728640, type = ''application/pdf''\<rparr>
       \<notin> set (attempted (uploadToGitee
        [\<lparr>name = ''a.png'', size_bytes = 5242880, type = ''image/png''\<rparr>,
         \<lparr>name = ''b.pdf'', size_bytes = 15728640, type = ''application/pdf''\<rparr>]
        DEFAULT_SETTINGS ''''
        \<lparr>reader = read_all (ReadLoaded ''data:image/png;base64,QUJD''),
         server = answer_all (PostFulfilled (AxiosResponse ''https://x/a.png'')),
         completion = [0]\<rparr>))
   \<and> issued (uploadToGitee
        [\<lparr>name = ''a.png'', size_bytes = 5242880, type = ''image/png''\<rparr>,
         \<lparr>name = ''b.pdf'', size_bytes = 15728640, type = ''application/pdf''\<rparr>]
        DEFAULT_SETTINGS ''''
        \<lparr>reader = read_all (ReadLoaded ''data:image/png;base64,QUJD''),
         server = answer_all (PostFulfilled (AxiosResponse ''https://x/a.png'')),
         completion = [0]\<rparr>)
     = [[\<lparr>url = ''https://gitee.com/api/v5/repos//contents////a.png'',
          access_token = '''', content = ''QUJD'', message = ''upload image''\<rparr>]]"
  using only_small_files_attempted [of
        "[\<lparr>name = ''a.png'', size_bytes = 5242880, type = ''image/png''\<rparr>,
         \<lparr>name = ''b.pdf'', size_bytes = 15728640, type = ''application/pdf''\<rparr>]"
        DEFAULT_SETTINGS "''''"
        "\<lparr>reader = read_all (ReadLoaded ''data:image/png;base64,QUJD''),
         server = answer_all (PostFulfilled (AxiosResponse ''https://x/a.png'')),
         completion = [0]\<rparr>"
        "\<lparr>name = ''b.pdf'', size_bytes = 15728640, type = ''application/pdf''\<rparr>"]
  by (simp add: read_all_def make_request_def DEFAULT_SETTINGS_def)

text \<open>
  C6. Among the notices of a batch, those about the size limit are none when no file
  is over the limit and exactly one when some are; that one lists the names of the
  files over the limit, in the order of the list, and so contains the name of each.
\<close>

theorem size_warning_once:
  "filter is_size_warning (shown (uploadToGitee fileList s fp w)) =
     (if \<exists>f \<in> set fileList. 1024 * 1024 * 10 < size_bytes f
      then [Notice (too_large_head
                    @ join (map name (filter (\<lambda>f. 1024 * 1024 * 10 < size_bytes f) fileList))
                        name_separator
                    @ too_large_tail) 5000]
      else [])
   \<and> length (filter is_size_warning (shown (uploadToGitee fileList s fp w))) =
       (if \<exists>f \<in> set fileList. 1024 * 1024 * 10 < size_bytes f then 1 else 0)
   \<and> (\<forall>f \<in> set fileList. 1024 * 1024 * 10 < size_bytes f \<longrightarrow>
        (\<exists>n \<in> set (shown (uploadToGitee fileList s fp w)).
           is_size_warning n \<and> sublist (name f) (notice_text n)))"
proof -
  let ?b = "uploadToGitee fileList s fp w"
  let ?big = "filter (\<lambda>f. 1024 * 1024 * 10 < size_bytes f) fileList"
  let ?n = "Notice (too_large_head @ join (map name ?big) name_separator @ too_large_tail) 5000"
  have shown: "filter is_size_warning (shown ?b) = size_warning fileList"
    by (simp add: uploadToGitee_def Let_def size_warning_kept op_notices_dropped)
  have warn: "size_warning fileList =
      (if \<exists>f \<in> set fileList. 1024 * 1024 * 10 < size_bytes f then [?n] else [])"
    using too_large_nonempty [of fileList] by (simp add: size_warning_def tooLargeFiles_def)
  have first: "filter is_size_warning (shown ?b) =
      (if \<exists>f \<in> set fileList. 1024 * 1024 * 10 < size_bytes f then [?n] else [])"
    using shown warn by simp
  have names: "\<exists>n \<in> set (shown ?b). is_size_warning n \<and> sublist (name f) (notice_text n)"
    if "f \<in> set fileList" and "1024 * 1024 * 10 < size_bytes f" for f
  proof -
    have "name f \<in> set (map name ?big)" using that by simp
    then have "sublist (name f) (join (map name ?big) name_separator)"
      by (rule in_join_sublist)
    then have sub: "sublist (name f) (notice_text ?n)"
      by (simp add: sublist_append)
    have "filter is_size_warning (shown ?b) = [?n]"
      using first that by auto
    then have "?n \<in> set (filter is_size_warning (shown ?b))" by simp
    then have "?n \<in> set (shown ?b) \<and> is_size_warning ?n" by simp
    then show ?thesis using sub by blast
  qed
  show ?thesis
    using first names by simp
qed

theorem size_warning_once_witness:
  "filter is_size_warning
     (shown (uploadToGitee
        [\<lparr>name = ''a.png'', size_bytes = 5242880, type = ''image/png''\<rparr>,
         \<lparr>name = ''b.pdf'', size_bytes = 15728640, type = ''application/pdf''\<rparr>]
        DEFAULT_SETTINGS ''''
        \<lparr>reader = read_all (ReadLoaded ''data:image/png;base64,QUJD''),
         server = answer_all (PostFulfilled (AxiosResponse ''https://x/a.png'')),
         completion = [0]\<rparr>))
     = [Notice (too_large_head @ ''b.pdf'' @ too_large_tail) 5000]
   \<and> (\<exists>n \<in> set (shown (uploadToGitee
        [\<lparr>name = ''a.png'', size_bytes = 5242880, type = ''image/png''\<rparr>,
         \<lparr>name = ''b.pdf'', size_bytes = 15728640, type = ''application/pdf''\<rparr>]
        DEFAULT_SETTINGS ''''
        \<lparr>reader = read_all (ReadLoaded ''data:image/png;base64,QUJD''),
         server = answer_all (PostFulfilled (AxiosResponse ''https://x/a.png'')),
         completion = [0]\<rparr>)).
        is_size_warning n \<and> sublist ''b.pdf'' (notice_text n))"
  using size_warning_once [of
        "[\<lparr>name = ''a.png'', size_bytes = 5242880, type = ''image/png''\<rparr>,
         \<lparr>name = ''b.pdf'', size_bytes = 15728640, type = ''application/pdf''\<rparr>]"
        DEFAULT_SETTINGS "''''"
        "\<lparr>reader = read_all (ReadLoaded ''data:image/png;base64,QUJD''),
         server = answer_all (PostFulfilled (AxiosResponse ''https://x/a.png'')),
         completion = [0]\<rparr>"]
  by simp

section \<open>The inserted text\<close>

text \<open>
  C7. When every operation of a batch settles, say with the results \<open>rs\<close> in the order
  of the accepted files, then in whatever order they settle the promise of the batch is
  fulfilled with \<open>rs\<close>, and the text given to the editor is \<open>rs\<close> without its empty
  strings, joined by newlines.
\<close>

theorem joined_in_file_order:
  assumes "map settled (operations fileList s fp w) = map Fulfilled rs"
    and "completion_order (length rs) order"
  shows "returned (uploadToGitee fileList s fp (w\<lparr>completion := order\<rparr>)) = Fulfilled rs
         \<and> replaceSelection (returned (uploadToGitee fileList s fp (w\<lparr>completion := order\<rparr>)))
           = Some (join (filter (\<lambda>x. x \<noteq> '''') rs) [CHR 0x0A])"
proof -
  have "{..<length rs} \<subseteq> set order"
    using assms(2) by (simp add: completion_order_set)
  with assms(1) have "promise_all (map settled (operations fileList s fp w)) order = Fulfilled rs"
    by (rule promise_all_fulfilled)
  then have "returned (uploadToGitee fileList s fp (w\<lparr>completion := order\<rparr>)) = Fulfilled rs"
    by (simp add: uploadToGitee_def Let_def operations_completion)
  then show ?thesis
    by (simp add: replaceSelection_def joined_def)
qed

theorem joined_in_file_order_witness:
  "replaceSelection (returned (uploadToGitee
       [\<lparr>name = ''a.png'', size_bytes = 5, type = ''image/png''\<rparr>,
        \<lparr>name = ''b.bin'', size_bytes = 7, type = ''''\<rparr>,
        \<lparr>name = ''c.txt'', size_bytes = 9, type = ''text/plain''\<rparr>]
       DEFAULT_SETTINGS ''''
       (\<lparr>reader = (read_all (ReadLoaded ''data:;base64,QUJD''))(1 := ReadError),
         server = (answer_all (PostFulfilled (AxiosResponse ''https://x/a.png'')))
                    (2 := answer_all (PostFulfilled (AxiosResponse ''https://x/c.txt'')) 2),
         completion = []\<rparr>\<lparr>completion := [2, 0, 1]\<rparr>)))
   = Some (''![a.png](https://x/a.png)'' @ [CHR 0x0A] @ ''https://x/c.txt'')"
  using joined_in_file_order [of
       "[\<lparr>name = ''a.png'', size_bytes = 5, type = ''image/png''\<rparr>,
        \<lparr>name = ''b.bin'', size_bytes = 7, type = ''''\<rparr>,
        \<lparr>name = ''c.txt'', size_bytes = 9, type = ''text/plain''\<rparr>]"
       DEFAULT_SETTINGS "''''"
       "\<lparr>reader = (read_all (ReadLoaded ''data:;base64,QUJD''))(1 := ReadError),
         server = (answer_all (PostFulfilled (AxiosResponse ''https://x/a.png'')))
                    (2 := answer_all (PostFulfilled (AxiosResponse ''https://x/c.txt'')) 2),
         completion = []\<rparr>"
       "[''![a.png](https://x/a.png)'', '''', ''https://x/c.txt'']"
       "[2, 0, 1]"]
  by (simp add: operations_def accepted_def upload_one_def read_all_def answer_all_def
      onerror_handler_def then_handler_def completion_order_def upt_rec
      replaceSelection_def joined_def)

section \<open>Events and settings\<close>

text \<open>
  C8. For a paste and for a drop alike: with no file list or an empty one the handler
  leaves the event as it is, opens nothing and starts nothing. With files it sets both
  flags of the event whatever the settings are, and then opens the modal when
  \<^verbatim>\<open>subPathable\<close> holds in the settings of the plugin at that moment, and starts the
  upload with the empty sub-path itself otherwise; right after the toggle of the
  settings tab was set to \<open>v\<close>, it is \<open>v\<close> that decides.
\<close>

theorem event_dispatch:
  "(files_of kind ev = None \<or> files_of kind ev = Some [] \<longrightarrow>
      on_editor_event kind plugin stored ev w
        = \<lparr>event_after = ev, opened = None, started = None\<rparr>)
   \<and> (files_of kind ev = Some fileList \<and> fileList \<noteq> [] \<longrightarrow>
        event_after (on_editor_event kind plugin stored ev w)
          = ev\<lparr>defaultPrevented := True, propagationStopped := True\<rparr>
        \<and> (subPathable (settings plugin) \<longrightarrow>
             opened (on_editor_event kind plugin stored ev w)
               = Some (new_SampleModal stored fileList (settings plugin))
             \<and> started (on_editor_event kind plugin stored ev w) = None)
        \<and> (\<not> subPathable (settings plugin) \<longrightarrow>
             opened (on_editor_event kind plugin stored ev w) = None
             \<and> started (on_editor_event kind plugin stored ev w)
               = Some (uploadToGitee fileList (settings plugin) '''' w))
        \<and> (opened (on_editor_event kind (onChange (SetSubPathable v) plugin) stored ev w) \<noteq> None
             \<longleftrightarrow> v)
        \<and> (started (on_editor_event kind (onChange (SetSubPathable v) plugin) stored ev w) \<noteq> None
             \<longleftrightarrow> \<not> v))"
  by (auto simp: on_editor_event_def uploadFiles_def Let_def saveSettings_def)

theorem event_dispatch_witness:
  "on_editor_event EditorPaste \<lparr>settings = DEFAULT_SETTINGS, data_file = None\<rparr> None
       (paste_of None) demo_world
     = \<lparr>event_after = paste_of None, opened = None, started = None\<rparr>
   \<and> defaultPrevented (event_after (on_editor_event EditorDrop
       \<lparr>settings = DEFAULT_SETTINGS, data_file = None\<rparr> (Some ''images'')
       (drop_of (Some demo_files)) demo_world))
   \<and> propagationStopped (event_after (on_editor_event EditorDrop
       \<lparr>settings = DEFAULT_SETTINGS, data_file = None\<rparr> (Some ''images'')
       (drop_of (Some demo_files)) demo_world))
   \<and> opened (on_editor_event EditorDrop
       \<lparr>settings = DEFAULT_SETTINGS, data_file = None\<rparr> (Some ''images'')
       (drop_of (Some demo_files)) demo_world)
     = Some \<lparr>modal_filePath = ''images'', modal_fileList = demo_files,
             modal_settings = DEFAULT_SETTINGS\<rparr>
   \<and> started (on_editor_event EditorPaste
       \<lparr>settings = DEFAULT_SETTINGS\<lparr>subPathable := False\<rparr>, data_file = None\<rparr> (Some ''images'')
       (paste_of (Some demo_files)) demo_world)
     = Some (uploadToGitee demo_files (DEFAULT_SETTINGS\<lparr>subPathable := False\<rparr>) '''' demo_world)"
proof -
  have ne: "demo_files \<noteq> []"
    by (simp add: demo_files_def)
  have on: "subPathable DEFAULT_SETTINGS"
    by (simp add: DEFAULT_SETTINGS_def)
  have none: "files_of EditorPaste (paste_of None) = None"
    by (simp add: paste_of_def)
  have dropped: "files_of EditorDrop (drop_of (Some demo_files)) = Some demo_files"
    by (simp add: drop_of_def)
  have pasted: "files_of EditorPaste (paste_of (Some demo_files)) = Some demo_files"
    by (simp add: paste_of_def)
  show ?thesis
    using ne on none dropped pasted
      event_dispatch [where kind = EditorPaste and ev = "paste_of None"
        and plugin = "\<lparr>settings = DEFAULT_SETTINGS, data_file = None\<rparr>" and stored = None
        and w = demo_world and fileList = "[]" and v = True]
      event_dispatch [where kind = EditorDrop and ev = "drop_of (Some demo_files)"
        and fileList = demo_files
        and plugin = "\<lparr>settings = DEFAULT_SETTINGS, data_file = None\<rparr>"
        and stored = "Some ''images''" and w = demo_world and v = True]
      event_dispatch [where kind = EditorPaste and ev = "paste_of (Some demo_files)"
        and fileList = demo_files
        and plugin = "\<lparr>settings = DEFAULT_SETTINGS\<lparr>subPathable := False\<rparr>, data_file = None\<rparr>"
        and stored = "Some ''images''" and w = demo_world and v = True]
    by (simp add: new_SampleModal_def)
qed

text \<open>
  C9. Loading after saving gives back the settings that were saved, also after each
  change made in the settings tab. Every load yields all five fields (the settings
  are a record): the defaults when nothing was saved, and for saved data each field it
  has, with the default for each field it lacks.
\<close>

theorem settings_round_trip:
  "settings (loadSettings (saveSettings plugin)) = settings plugin
   \<and> settings (loadSettings (onChange c plugin)) = settings (onChange c plugin)
   \<and> settings (loadSettings (plugin\<lparr>data_file := None\<rparr>)) = DEFAULT_SETTINGS
   \<and> settings (loadSettings (plugin\<lparr>data_file := Some d\<rparr>))
     = \<lparr>repo = (case saved_repo d of Some x \<Rightarrow> x | None \<Rightarrow> ''''),
        branch = (case saved_branch d of Some x \<Rightarrow> x | None \<Rightarrow> ''master''),
        path = (case saved_path d of Some x \<Rightarrow> x | None \<Rightarrow> ''/''),
        token = (case saved_token d of Some x \<Rightarrow> x | None \<Rightarrow> ''''),
        subPathable = (case saved_subPathable d of Some x \<Rightarrow> x | None \<Rightarrow> True)\<rparr>"
proof -
  have rt: "settings (loadSettings (saveSettings p)) = settings p" for p
    by (simp add: loadSettings_def saveSettings_def saveData_def object_assign_def)
  have "saveSettings (onChange c plugin) = onChange c plugin"
    by (cases c) (simp_all add: saveSettings_def)
  then have "settings (loadSettings (onChange c plugin)) = settings (onChange c plugin)"
    using rt [of "onChange c plugin"] by simp
  then show ?thesis
    using rt [of plugin]
    by (simp add: loadSettings_def object_assign_def DEFAULT_SETTINGS_def cong: option.case_cong)
qed

theorem settings_round_trip_witness:
  "settings (loadSettings (saveSettings
       \<lparr>settings = \<lparr>repo = ''o/r'', branch = ''dev'', path = ''img'', token = ''t'',
                     subPathable = False\<rparr>, data_file = None\<rparr>))
     = \<lparr>repo = ''o/r'', branch = ''dev'', path = ''img'', token = ''t'', subPathable = False\<rparr>
   \<and> settings (loadSettings
       \<lparr>settings = DEFAULT_SETTINGS,
        data_file = Some \<lparr>saved_repo = Some ''o/r'', saved_branch = None, saved_path = None,
                          saved_token = Some ''t'', saved_subPathable = None\<rparr>\<rparr>)
     = \<lparr>repo = ''o/r'', branch = ''master'', path = ''/'', token = ''t'', subPathable = True\<rparr>"
  using settings_round_trip [where plugin =
       "\<lparr>settings = \<lparr>repo = ''o/r'', branch = ''dev'', path = ''img'', token = ''t'',
                     subPathable = False\<rparr>, data_file = None\<rparr>"]
     settings_round_trip [where plugin = "\<lparr>settings = DEFAULT_SETTINGS, data_file = None\<rparr>"
       and d = "\<lparr>saved_repo = Some ''o/r'', saved_branch = None, saved_path = None,
                          saved_token = Some ''t'', saved_subPathable = None\<rparr>"]
  by simp

text \<open>
  C10. Two configurations that differ only in \<^verbatim>\<open>branch\<close> give the same batch on the
  same files, sub-path and environment: the same requests (URL and body), the same
  notices and the same promise.
\<close>

theorem branch_never_used:
  "uploadToGitee fileList (s\<lparr>branch := b\<rparr>) fp w = uploadToGitee fileList s fp w"
  by (simp add: uploadToGitee_def operations_def upload_one_branch)

end
